theory Spec2Isabelle
  imports Main
begin

section \<open>Values\<close>

text \<open>
  Values held by the Realtime Database, as \<^verbatim>\<open>snapshot.val()\<close> hands them to the handlers.
  The database stores neither \<^verbatim>\<open>null\<close> nor \<^verbatim>\<open>undefined\<close>: an absent node reads as
  \<^verbatim>\<open>null\<close> at the top (\<open>None\<close> below) and as a missing property inside an object.
  An object lists its properties in the order \<^verbatim>\<open>for (... in ...)\<close> enumerates them. A node
  that the client library renders as an array is represented by the object of its index
  keys: enumeration and the named property reads of the handlers do not tell them apart.
\<close>

datatype dbval =
    DBool bool
  | DNum int
  | DStr string
  | DObj "(string \<times> dbval) list"

type_synonym collection = "(string \<times> dbval) list"

text \<open>JavaScript values of request bodies and of the JSON documents the handlers send.\<close>

datatype jsval =
    JUndefined
  | JNull
  | JBool bool
  | JNum int
  | JStr string
  | JArr "jsval list"
  | JObj "(string \<times> jsval) list"

primrec of_db :: "dbval \<Rightarrow> jsval" where
  "of_db (DBool b) = JBool b"
| "of_db (DNum n) = JNum n"
| "of_db (DStr s) = JStr s"
| "of_db (DObj kvs) = JObj (map (map_prod id of_db) kvs)"

text \<open>A property read that may find nothing: \<open>None\<close> is \<^verbatim>\<open>undefined\<close>.\<close>

definition of_prop :: "dbval option \<Rightarrow> jsval" where
  "of_prop p = (case p of None \<Rightarrow> JUndefined | Some v \<Rightarrow> of_db v)"

definition of_str :: "string option \<Rightarrow> jsval" where
  "of_str p = (case p of None \<Rightarrow> JUndefined | Some s \<Rightarrow> JStr s)"

text \<open>
  \<^verbatim>\<open>supplier.email\<close> and the like on a stored value: an object answers with its own
  property, a primitive has none of the names the handlers read.
\<close>

fun db_get :: "dbval \<Rightarrow> string \<Rightarrow> dbval option" where
  "db_get (DObj kvs) k = map_of kvs k"
| "db_get _ k = None"

text \<open>
  \<^verbatim>\<open>a === b\<close> where \<open>a\<close> was read from a stored value and \<open>b\<close> is a string or
  \<^verbatim>\<open>undefined\<close> (the identity's \<^verbatim>\<open>email\<close> and \<^verbatim>\<open>uid\<close>): no conversion, no trimming.
\<close>

fun strict_eq :: "dbval option \<Rightarrow> string option \<Rightarrow> bool" where
  "strict_eq None None = True"
| "strict_eq (Some (DStr s)) (Some t) = (s = t)"
| "strict_eq _ _ = False"

text \<open>
  \<^verbatim>\<open>updates[key]\<close> on a request body: \<open>None\<close> stands for the TypeError that reading a
  property of \<^verbatim>\<open>null\<close> or \<^verbatim>\<open>undefined\<close> throws.
\<close>

fun js_get :: "jsval \<Rightarrow> string \<Rightarrow> jsval option" where
  "js_get JUndefined k = None"
| "js_get JNull k = None"
| "js_get (JObj kvs) k = Some (case map_of kvs k of None \<Rightarrow> JUndefined | Some v \<Rightarrow> v)"
| "js_get _ k = Some JUndefined"

section \<open>Collaborators\<close>

text \<open>What a rejected promise or a thrown exception carries: \<^verbatim>\<open>error.code\<close>, \<^verbatim>\<open>error.message\<close>.\<close>

record js_error =
  code :: "string option"
  message :: string

record decoded_token =
  tok_uid :: string
  tok_email :: "string option"

record user_metadata =
  creationTime :: string
  lastSignInTime :: "string option"

text \<open>
  The \<^verbatim>\<open>UserRecord\<close> of the identity provider, which \<^verbatim>\<open>authenticateFirebaseUser\<close> copies
  field by field into \<^verbatim>\<open>req.user\<close>; \<open>isAdmin\<close> is the flag \<^verbatim>\<open>requireAdmin\<close> adds (unset
  reads as false).
\<close>

record user =
  uid :: string
  email :: "string option"
  emailVerified :: bool
  displayName :: "string option"
  phoneNumber :: "string option"
  photoURL :: "string option"
  disabled :: bool
  metadata :: user_metadata
  providerData :: jsval
  isAdmin :: bool

text \<open>
  The process-wide handles \<^verbatim>\<open>db\<close> and \<^verbatim>\<open>auth\<close>, by what their calls answer during one
  request. \<open>fournisseur\<close> and \<open>admin\<close> are the outcomes of reading the two registries
  (\<open>Inl\<close>: the read is rejected; \<open>Inr None\<close>: nothing is stored there, the snapshot's
  value is \<^verbatim>\<open>null\<close>; \<open>Inr (Some records)\<close>: the keyed records, keys distinct, in
  enumeration order).
  \<open>equalTo_undefined\<close> is the error the client library throws when \<^verbatim>\<open>equalTo\<close> is
  handed \<^verbatim>\<open>undefined\<close>: it validates its argument before any read.
  \<open>verifyIdToken\<close> is the provider's \<^verbatim>\<open>verifyIdToken(idToken, checkRevoked)\<close>; the flag
  asks it to reject a token that has been revoked, and an omitted flag is false.
  \<open>now\<close> is \<^verbatim>\<open>new Date().toISOString()\<close>.
\<close>

record env =
  fournisseur :: "js_error + collection option"
  admin :: "js_error + collection option"
  equalTo_undefined :: js_error
  verifyIdToken :: "string option \<Rightarrow> bool \<Rightarrow> js_error + decoded_token"
  getUser :: "string \<Rightarrow> js_error + user"
  updateUser :: "string \<Rightarrow> (string \<times> jsval) list \<Rightarrow> js_error + unit"
  listUsers :: "nat \<Rightarrow> js_error + user list"
  now :: string

text \<open>The calls a request makes on the collaborators, in the order it makes them.\<close>

datatype call =
    Once string
  | OnceEqualTo string string "string option"
  | VerifyIdToken "string option"
  | GetUser string
  | UpdateUser string "(string \<times> jsval) list"
  | ListUsers nat

text \<open>
  \<^verbatim>\<open>db.ref('admin').orderByChild('email').equalTo(v).once('value')\<close> followed by
  \<^verbatim>\<open>.val()\<close>: the children of the admin registry whose \<^verbatim>\<open>email\<close> child is the string
  \<open>v\<close>, or \<^verbatim>\<open>null\<close> when there is none. The query runs inside the database service; this
  is the equality filter section 4.2 of the specification describes. Handed
  \<^verbatim>\<open>undefined\<close>, \<^verbatim>\<open>equalTo\<close> throws and nothing is read.
\<close>

definition admin_by_email :: "env \<Rightarrow> string option \<Rightarrow> js_error + collection option" where
  "admin_by_email e v =
     (case v of
        None \<Rightarrow> Inl (equalTo_undefined e)
      | Some s \<Rightarrow>
          (case admin e of
             Inl err \<Rightarrow> Inl err
           | Inr None \<Rightarrow> Inr None
           | Inr (Some records) \<Rightarrow>
               (let found = filter (\<lambda>(k, r). db_get r ''email'' = Some (DStr s)) records
                in Inr (if found = [] then None else Some found))))"

section \<open>Responses\<close>

datatype response = Respond (status: nat) (body: jsval)

text \<open>\<^verbatim>\<open>res.json(doc)\<close> without a preceding \<^verbatim>\<open>res.status\<close> answers 200.\<close>

definition json :: "jsval \<Rightarrow> response" where
  "json doc = Respond 200 doc"

text \<open>A middleware either answers the request or calls \<^verbatim>\<open>next()\<close> with \<^verbatim>\<open>req.user\<close> set.\<close>

datatype 'u step = Done response | Next 'u

section \<open>The supplier scan\<close>

text \<open>
  The loop every supplier check repeats:
  \<^verbatim>\<open>for (const supplierId in suppliers) { const supplier = suppliers[supplierId];
    if (supplier.email === user.email || supplier.id === user.uid)
      { isSupplier = true; supplierData = ...; break; } }\<close>
  The handlers differ only in the \<open>supplierData\<close> they build, which is the parameter
  \<open>mk\<close>. The result is \<open>(isSupplier, supplierData)\<close>, initially \<open>(false, null)\<close>.
\<close>

fun supplier_loop ::
  "(string \<Rightarrow> dbval \<Rightarrow> jsval) \<Rightarrow> string option \<Rightarrow> string \<Rightarrow> collection \<Rightarrow> bool \<times> jsval" where
  "supplier_loop mk user_email user_uid [] = (False, JNull)"
| "supplier_loop mk user_email user_uid ((supplierId, supplier) # rest) =
     (if strict_eq (db_get supplier ''email'') user_email
         \<or> strict_eq (db_get supplier ''id'') (Some user_uid)
      then (True, mk supplierId supplier)
      else supplier_loop mk user_email user_uid rest)"

text \<open>\<^verbatim>\<open>if (suppliers) { for ... }\<close>: \<^verbatim>\<open>null\<close> skips the loop.\<close>

definition scan_suppliers ::
  "(string \<Rightarrow> dbval \<Rightarrow> jsval) \<Rightarrow> string option \<Rightarrow> string \<Rightarrow> collection option \<Rightarrow> bool \<times> jsval" where
  "scan_suppliers mk user_email user_uid suppliers =
     (case suppliers of
        None \<Rightarrow> (False, JNull)
      | Some records \<Rightarrow> supplier_loop mk user_email user_uid records)"

section \<open>GET /api/check-supplier\<close>

definition internal_error :: "js_error \<Rightarrow> response" where
  "internal_error error =
     Respond 500 (JObj [(''error'', JStr ''Erreur interne du serveur''),
                        (''message'', JStr (message error))])"

definition check_supplier_data :: "string \<Rightarrow> dbval \<Rightarrow> jsval" where
  "check_supplier_data supplierId supplier =
     JObj [(''id'', JStr supplierId),
           (''name'', of_prop (db_get supplier ''name'')),
           (''departement'', of_prop (db_get supplier ''departement''))]"

text \<open>The handler of the secured server (\<^verbatim>\<open>authenticateFirebaseUser\<close> has set \<^verbatim>\<open>req.user\<close>).\<close>

definition check_supplier :: "env \<Rightarrow> user \<Rightarrow> response \<times> call list" where
  "check_supplier e u =
     (case fournisseur e of
        Inl error \<Rightarrow> (internal_error error, [Once ''fournisseur''])
      | Inr suppliers \<Rightarrow>
          (let (isSupplier, supplierData) =
                 scan_suppliers check_supplier_data (email u) (uid u) suppliers
           in (json (JObj [(''isSupplier'', JBool isSupplier),
                           (''supplier'', supplierData),
                           (''user'', JObj [(''uid'', JStr (uid u)),
                                            (''email'', of_str (email u))]),
                           (''timestamp'', JStr (now e))]),
               [Once ''fournisseur''])))"

text \<open>
  The handler of \<^verbatim>\<open>server.js\<close>, whose \<^verbatim>\<open>req.user\<close> is \<^verbatim>\<open>{uid, email}\<close> of the decoded
  token. It builds no \<open>supplierData\<close> and answers \<^verbatim>\<open>{isSupplier}\<close> alone.
\<close>

definition server_internal_error :: response where
  "server_internal_error = Respond 500 (JObj [(''error'', JStr ''Erreur interne du serveur'')])"

definition server_check_supplier :: "env \<Rightarrow> decoded_token \<Rightarrow> response \<times> call list" where
  "server_check_supplier e u =
     (case fournisseur e of
        Inl error \<Rightarrow> (server_internal_error, [Once ''fournisseur''])
      | Inr None \<Rightarrow> (json (JObj [(''isSupplier'', JBool False)]), [Once ''fournisseur''])
      | Inr (Some records) \<Rightarrow>
          (let isSupplier = fst (supplier_loop (\<lambda>supplierId supplier. JNull)
                                   (tok_email u) (tok_uid u) records)
           in (json (JObj [(''isSupplier'', JBool isSupplier)]), [Once ''fournisseur''])))"

section \<open>GET /api/check-roles\<close>

definition check_roles_data :: "string \<Rightarrow> dbval \<Rightarrow> jsval" where
  "check_roles_data supplierId supplier =
     JObj [(''id'', JStr supplierId),
           (''name'', of_prop (db_get supplier ''name'')),
           (''departement'', of_prop (db_get supplier ''departement'')),
           (''telephone'', of_prop (db_get supplier ''telephone'')),
           (''address'', of_prop (db_get supplier ''address''))]"

text \<open>
  The secured server's handler. Both reads sit in one \<^verbatim>\<open>try\<close> block: the first one that
  is rejected ends the handler in the \<^verbatim>\<open>catch\<close>.
\<close>

definition check_roles :: "env \<Rightarrow> user \<Rightarrow> response \<times> call list" where
  "check_roles e u =
     (case fournisseur e of
        Inl error \<Rightarrow> (internal_error error, [Once ''fournisseur''])
      | Inr suppliers \<Rightarrow>
          (let (isSupplier, supplierData) =
                 scan_suppliers check_roles_data (email u) (uid u) suppliers
           in (case admin_by_email e (email u) of
                 Inl error \<Rightarrow>
                   (internal_error error,
                    [Once ''fournisseur'', OnceEqualTo ''admin'' ''email'' (email u)])
               | Inr adminData \<Rightarrow>
                   (let isAdmin = (adminData \<noteq> None)
                    in (json (JObj [(''user'', JObj [(''uid'', JStr (uid u)),
                                                     (''email'', of_str (email u)),
                                                     (''emailVerified'', JBool (emailVerified u)),
                                                     (''displayName'', of_str (displayName u))]),
                                    (''roles'', JObj [(''isSupplier'', JBool isSupplier),
                                                      (''isAdmin'', JBool isAdmin),
                                                      (''isAuthenticated'', JBool True)]),
                                    (''supplier'', supplierData),
                                    (''timestamp'', JStr (now e))]),
                        [Once ''fournisseur'', OnceEqualTo ''admin'' ''email'' (email u)])))))"

text \<open>The handler of \<^verbatim>\<open>server.js\<close>.\<close>

definition server_check_roles :: "env \<Rightarrow> decoded_token \<Rightarrow> response \<times> call list" where
  "server_check_roles e u =
     (case fournisseur e of
        Inl error \<Rightarrow> (server_internal_error, [Once ''fournisseur''])
      | Inr suppliers \<Rightarrow>
          (let isSupplier = fst (scan_suppliers (\<lambda>supplierId supplier. JNull)
                                   (tok_email u) (tok_uid u) suppliers)
           in (case admin_by_email e (tok_email u) of
                 Inl error \<Rightarrow>
                   (server_internal_error,
                    [Once ''fournisseur'', OnceEqualTo ''admin'' ''email'' (tok_email u)])
               | Inr adminData \<Rightarrow>
                   (let isAdmin = (adminData \<noteq> None)
                    in (json (JObj [(''isSupplier'', JBool isSupplier),
                                    (''isAdmin'', JBool isAdmin),
                                    (''user'', JObj [(''uid'', JStr (tok_uid u)),
                                                     (''email'', of_str (tok_email u))])]),
                        [Once ''fournisseur'', OnceEqualTo ''admin'' ''email'' (tok_email u)])))))"

section \<open>Authentication\<close>

text \<open>
  \<^verbatim>\<open>s.split(sep)\<close> for a non-empty separator: the pieces between the occurrences of
  \<open>sep\<close>, found left to right without overlap. \<open>skip\<close> counts the characters of a found
  separator still to pass over, \<open>acc\<close> holds the current piece reversed.
\<close>

fun split_from :: "string \<Rightarrow> nat \<Rightarrow> string \<Rightarrow> string \<Rightarrow> string list" where
  "split_from sep skip acc [] = [rev acc]"
| "split_from sep skip acc (c # cs) =
     (if 0 < skip then split_from sep (skip - 1) acc cs
      else if take (length sep) (c # cs) = sep
        then rev acc # split_from sep (length sep - 1) [] cs
        else split_from sep 0 (c # acc) cs)"

definition js_split :: "string \<Rightarrow> string \<Rightarrow> string list" where
  "js_split sep s = split_from sep 0 [] s"

definition startsWith :: "string \<Rightarrow> string \<Rightarrow> bool" where
  "startsWith s p = (take (length p) s = p)"

text \<open>\<^verbatim>\<open>xs[i]\<close>: \<^verbatim>\<open>undefined\<close> past the end.\<close>

fun js_index :: "'a list \<Rightarrow> nat \<Rightarrow> 'a option" where
  "js_index [] i = None"
| "js_index (x # xs) 0 = Some x"
| "js_index (x # xs) (Suc i) = js_index xs i"

text \<open>
  \<^verbatim>\<open>!authHeader || !authHeader.startsWith('Bearer ')\<close>: a missing header and the empty
  string are both falsy.
\<close>

definition no_bearer :: "string option \<Rightarrow> bool" where
  "no_bearer authHeader =
     (case authHeader of
        None \<Rightarrow> True
      | Some h \<Rightarrow> h = [] \<or> \<not> startsWith h ''Bearer '')"

definition bearer_token :: "string option \<Rightarrow> string option" where
  "bearer_token authHeader =
     (case authHeader of
        None \<Rightarrow> None
      | Some h \<Rightarrow> js_index (js_split ''Bearer '' h) 1)"

text \<open>The \<^verbatim>\<open>catch\<close> branch of \<^verbatim>\<open>authenticateFirebaseUser\<close>.\<close>

definition auth_failure :: "js_error \<Rightarrow> response" where
  "auth_failure error =
     (let statusCode = (if code error = Some ''auth/id-token-expired'' then 401
                        else if code error = Some ''auth/id-token-revoked'' then 401
                        else if code error = Some ''auth/user-not-found'' then 404
                        else 401);
          errorMessage =
            (if code error = Some ''auth/id-token-expired''
               then ''Token expir'' @ [CHR 0xE9] @ '', veuillez vous reconnecter''
             else if code error = Some ''auth/id-token-revoked''
               then ''Token r'' @ [CHR 0xE9] @ ''voqu'' @ [CHR 0xE9]
             else if code error = Some ''auth/user-not-found''
               then ''Utilisateur non trouv'' @ [CHR 0xE9]
             else ''Token invalide ou expir'' @ [CHR 0xE9])
      in Respond statusCode
           (JObj [(''error'', JStr (''Authentification '' @ [CHR 0xE9] @ ''chou'' @ [CHR 0xE9] @ ''e'')),
                  (''message'', JStr errorMessage),
                  (''code'', of_str (code error))]))"

text \<open>
  Both middlewares call \<^verbatim>\<open>verifyIdToken(token)\<close> with the token alone, so the provider
  is asked without the revocation check.
\<close>

definition authenticateFirebaseUser :: "env \<Rightarrow> string option \<Rightarrow> user step \<times> call list" where
  "authenticateFirebaseUser e authHeader =
     (if no_bearer authHeader
      then (Done (Respond 401
                    (JObj [(''error'', JStr (''Non autoris'' @ [CHR 0xE9])),
                           (''message'', JStr ''Token d'authentification manquant'')])),
            [])
      else
        (let token = bearer_token authHeader
         in (case verifyIdToken e token False of
               Inl error \<Rightarrow> (Done (auth_failure error), [VerifyIdToken token])
             | Inr decodedToken \<Rightarrow>
                 (case getUser e (tok_uid decodedToken) of
                    Inl error \<Rightarrow>
                      (Done (auth_failure error),
                       [VerifyIdToken token, GetUser (tok_uid decodedToken)])
                  | Inr found \<Rightarrow>
                      (Next (found\<lparr>isAdmin := False\<rparr>),
                       [VerifyIdToken token, GetUser (tok_uid decodedToken)])))))"

text \<open>\<^verbatim>\<open>authenticateUser\<close> of \<^verbatim>\<open>server.js\<close>: every failure is a 401.\<close>

definition authenticateUser :: "env \<Rightarrow> string option \<Rightarrow> decoded_token step \<times> call list" where
  "authenticateUser e authHeader =
     (if no_bearer authHeader
      then (Done (Respond 401 (JObj [(''error'', JStr (''Non autoris'' @ [CHR 0xE9]))])), [])
      else
        (let token = bearer_token authHeader
         in (case verifyIdToken e token False of
               Inl error \<Rightarrow>
                 (Done (Respond 401 (JObj [(''error'', JStr ''Token invalide'')])),
                  [VerifyIdToken token])
             | Inr decodedToken \<Rightarrow>
                 (Next \<lparr>tok_uid = tok_uid decodedToken, tok_email = tok_email decodedToken\<rparr>,
                  [VerifyIdToken token]))))"

text \<open>
  A route \<^verbatim>\<open>app.get(path, middleware, handler)\<close>: the handler runs only when the middleware
  called \<^verbatim>\<open>next()\<close>. What \<^verbatim>\<open>app.use\<close> installs in front of every route (security
  headers, CORS, the body parsers, the rate limiter) belongs to the framework and is not
  modelled.
\<close>

definition guarded ::
  "'u step \<times> call list \<Rightarrow> ('u \<Rightarrow> response \<times> call list) \<Rightarrow> response \<times> call list" where
  "guarded m handler =
     (case m of
        (Done r, calls) \<Rightarrow> (r, calls)
      | (Next u, calls) \<Rightarrow> (case handler u of (r, calls') \<Rightarrow> (r, calls @ calls')))"

section \<open>The admin guard\<close>

text \<open>\<^verbatim>\<open>requireAdmin\<close>; \<open>None\<close> is a request on which no middleware set \<^verbatim>\<open>req.user\<close>.\<close>

definition requireAdmin :: "env \<Rightarrow> user option \<Rightarrow> user step \<times> call list" where
  "requireAdmin e req_user =
     (case req_user of
        None \<Rightarrow>
          (Done (Respond 401
                   (JObj [(''error'', JStr (''Utilisateur non authentifi'' @ [CHR 0xE9]))])),
           [])
      | Some u \<Rightarrow>
          (case admin_by_email e (email u) of
             Inl error \<Rightarrow>
               (Done (Respond 500 (JObj [(''error'', JStr ''Erreur interne du serveur'')])),
                [OnceEqualTo ''admin'' ''email'' (email u)])
           | Inr None \<Rightarrow>
               (Done (Respond 403
                        (JObj [(''error'', JStr (''Acc'' @ [CHR 0xE8] @ ''s refus'' @ [CHR 0xE9])),
                               (''message'',
                                JStr ''Vous n'avez pas les permissions d'administrateur'')])),
                [OnceEqualTo ''admin'' ''email'' (email u)])
           | Inr (Some adminData) \<Rightarrow>
               (Next (u\<lparr>isAdmin := True\<rparr>), [OnceEqualTo ''admin'' ''email'' (email u)])))"

section \<open>PUT /api/user/update\<close>

definition allowedUpdates :: "string list" where
  "allowedUpdates = [''displayName'', ''photoURL'']"

text \<open>The TypeError of the engine for a property read on \<^verbatim>\<open>null\<close> or \<^verbatim>\<open>undefined\<close>.\<close>

definition type_error :: "jsval \<Rightarrow> string \<Rightarrow> js_error" where
  "type_error v k =
     \<lparr>code = None,
      message = ''Cannot read properties of ''
                @ (if v = JNull then ''null'' else ''undefined'')
                @ '' (reading '' @ [CHR 0x27] @ k @ [CHR 0x27] @ '')''\<rparr>"

text \<open>
  \<^verbatim>\<open>for (const key of allowedUpdates) { if (updates[key] !== undefined)
    filteredUpdates[key] = updates[key]; }\<close>
\<close>

fun filter_updates ::
  "jsval \<Rightarrow> string list \<Rightarrow> (string \<times> jsval) list \<Rightarrow> js_error + (string \<times> jsval) list" where
  "filter_updates updates [] filteredUpdates = Inr filteredUpdates"
| "filter_updates updates (key # keys) filteredUpdates =
     (case js_get updates key of
        None \<Rightarrow> Inl (type_error updates key)
      | Some v \<Rightarrow>
          filter_updates updates keys
            (if v \<noteq> JUndefined then filteredUpdates @ [(key, v)] else filteredUpdates))"

definition user_update :: "env \<Rightarrow> jsval \<Rightarrow> user \<Rightarrow> response \<times> call list" where
  "user_update e updates u =
     (case filter_updates updates allowedUpdates [] of
        Inl error \<Rightarrow> (internal_error error, [])
      | Inr filteredUpdates \<Rightarrow>
          (if length filteredUpdates = 0
           then (Respond 400
                   (JObj [(''error'', JStr (''Aucune mise '' @ [CHR 0xE0] @ '' jour valide fournie'')),
                          (''allowedUpdates'', JArr (map JStr allowedUpdates))]),
                 [])
           else
             (case updateUser e (uid u) filteredUpdates of
                Inl error \<Rightarrow> (internal_error error, [UpdateUser (uid u) filteredUpdates])
              | Inr updated \<Rightarrow>
                  (json (JObj [(''success'', JBool True),
                               (''message'',
                                JStr (''Profil mis '' @ [CHR 0xE0] @ '' jour avec succ''
                                      @ [CHR 0xE8] @ ''s'')),
                               (''updates'', JObj filteredUpdates),
                               (''timestamp'', JStr (now e))]),
                   [UpdateUser (uid u) filteredUpdates]))))"

section \<open>GET /api/admin/users\<close>

definition user_summary :: "user \<Rightarrow> jsval" where
  "user_summary u =
     JObj [(''uid'', JStr (uid u)),
           (''email'', of_str (email u)),
           (''emailVerified'', JBool (emailVerified u)),
           (''displayName'', of_str (displayName u)),
           (''disabled'', JBool (disabled u)),
           (''metadata'', JObj [(''creationTime'', JStr (creationTime (metadata u))),
                                (''lastSignInTime'', of_str (lastSignInTime (metadata u)))])]"

definition admin_users :: "env \<Rightarrow> user \<Rightarrow> response \<times> call list" where
  "admin_users e u =
     (case listUsers e 100 of
        Inl error \<Rightarrow> (internal_error error, [ListUsers 100])
      | Inr listed \<Rightarrow>
          (let users = map user_summary listed
           in (json (JObj [(''success'', JBool True),
                           (''count'', JNum (int (length users))),
                           (''users'', JArr users),
                           (''timestamp'', JStr (now e))]),
               [ListUsers 100])))"

section \<open>Routes\<close>

record request =
  authorization :: "string option"
  req_body :: jsval

definition route_check_roles :: "env \<Rightarrow> request \<Rightarrow> response \<times> call list" where
  "route_check_roles e req =
     guarded (authenticateFirebaseUser e (authorization req)) (check_roles e)"

definition route_check_supplier :: "env \<Rightarrow> request \<Rightarrow> response \<times> call list" where
  "route_check_supplier e req =
     guarded (authenticateFirebaseUser e (authorization req)) (check_supplier e)"

definition route_user_update :: "env \<Rightarrow> request \<Rightarrow> response \<times> call list" where
  "route_user_update e req =
     guarded (authenticateFirebaseUser e (authorization req)) (user_update e (req_body req))"

definition route_admin_users :: "env \<Rightarrow> request \<Rightarrow> response \<times> call list" where
  "route_admin_users e req =
     guarded (authenticateFirebaseUser e (authorization req))
       (\<lambda>u. guarded (requireAdmin e (Some u)) (admin_users e))"

definition server_route_check_roles :: "env \<Rightarrow> request \<Rightarrow> response \<times> call list" where
  "server_route_check_roles e req =
     guarded (authenticateUser e (authorization req)) (server_check_roles e)"

definition server_route_check_supplier :: "env \<Rightarrow> request \<Rightarrow> response \<times> call list" where
  "server_route_check_supplier e req =
     guarded (authenticateUser e (authorization req)) (server_check_supplier e)"

section \<open>Reading the model\<close>

text \<open>The records a registry read holds: none when nothing is stored.\<close>

definition children :: "collection option \<Rightarrow> collection" where
  "children c = (case c of None \<Rightarrow> [] | Some records \<Rightarrow> records)"

text \<open>
  The test of the supplier loop on one entry of the registry:
  \<^verbatim>\<open>supplier.email === user.email || supplier.id === user.uid\<close>.
\<close>

definition is_match :: "string option \<Rightarrow> string \<Rightarrow> string \<times> dbval \<Rightarrow> bool" where
  "is_match user_email user_uid entry =
     (strict_eq (db_get (snd entry) ''email'') user_email
      \<or> strict_eq (db_get (snd entry) ''id'') (Some user_uid))"

section \<open>A concrete deployment\<close>

text \<open>
  The identity \<^verbatim>\<open>{email:"s@x.com", unique_id:"u1"}\<close> and the supplier store
  \<^verbatim>\<open>{"k1":{"email":"s@x.com","name":"Acme"}}\<close> of the specification's example, with one
  admin \<^verbatim>\<open>a@x.com\<close> and a verifier that accepts the token \<^verbatim>\<open>good\<close>, knows \<^verbatim>\<open>old\<close> as
  expired, and rejects the revoked but unexpired token \<^verbatim>\<open>withdrawn\<close> only when it is asked
  to check revocation.
\<close>

definition example_user :: user where
  "example_user =
     \<lparr>uid = ''u1'', email = Some ''s@x.com'', emailVerified = True, displayName = None,
      phoneNumber = None, photoURL = None, disabled = False,
      metadata = \<lparr>creationTime = ''Mon, 01 Jan 2024 00:00:00 GMT'', lastSignInTime = None\<rparr>,
      providerData = JArr [], isAdmin = False\<rparr>"

definition example_token :: decoded_token where
  "example_token = \<lparr>tok_uid = ''u1'', tok_email = Some ''s@x.com''\<rparr>"

definition example_suppliers :: collection where
  "example_suppliers = [(''k1'', DObj [(''email'', DStr ''s@x.com''), (''name'', DStr ''Acme'')])]"

definition example_env :: env where
  "example_env =
     \<lparr>fournisseur = Inr (Some example_suppliers),
      admin = Inr (Some [(''a1'', DObj [(''email'', DStr ''a@x.com'')])]),
      equalTo_undefined =
        \<lparr>code = None, message = ''equalTo failed: value argument contains undefined''\<rparr>,
      verifyIdToken =
        (\<lambda>t checkRevoked.
           if t = Some ''good'' then Inr example_token
           else if t = Some ''old''
             then Inl \<lparr>code = Some ''auth/id-token-expired'',
                       message = ''Firebase ID token has expired''\<rparr>
           else if t = Some ''withdrawn''
             then (if checkRevoked
                   then Inl \<lparr>code = Some ''auth/id-token-revoked'',
                             message = ''The Firebase ID token has been revoked''\<rparr>
                   else Inr example_token)
           else Inl \<lparr>code = Some ''auth/argument-error'',
                     message = ''Decoding Firebase ID token failed''\<rparr>),
      getUser =
        (\<lambda>i. if i = ''u1'' then Inr example_user
             else Inl \<lparr>code = Some ''auth/user-not-found'', message = ''No user record''\<rparr>),
      updateUser = (\<lambda>i fs. Inr ()),
      listUsers = (\<lambda>n. Inr (take n [example_user])),
      now = ''2024-01-01T00:00:00.000Z''\<rparr>"

text \<open>The same identity, registered as an admin and as nothing else.\<close>

definition example_admin_env :: env where
  "example_admin_env =
     example_env\<lparr>fournisseur := Inr None,
                 admin := Inr (Some [(''a1'', DObj [(''email'', DStr ''s@x.com'')])])\<rparr>"

text \<open>An identity without an email, and a registry whose second record has none either.\<close>

definition anonymous_user :: user where
  "anonymous_user = example_user\<lparr>uid := ''u2'', email := None\<rparr>"

definition anonymous_token :: decoded_token where
  "anonymous_token = \<lparr>tok_uid = ''u2'', tok_email = None\<rparr>"

definition unlabelled_suppliers :: collection where
  "unlabelled_suppliers =
     [(''k1'', DObj [(''email'', DStr ''s@x.com''), (''name'', DStr ''Acme'')]),
      (''k2'', DObj [(''name'', DStr ''Bolt'')]),
      (''k3'', DObj [(''name'', DStr ''Cog'')])]"

definition store_down :: js_error where
  "store_down = \<lparr>code = None, message = ''permission_denied''\<rparr>"



definition capital_user :: user where
  "capital_user = example_user\<lparr>uid := ''u3'', email := Some ''A@x.com''\<rparr>"

definition lowercase_record :: dbval where
  "lowercase_record = DObj [(''email'', DStr ''a@x.com''), (''name'', DStr ''Ada'')]"

definition lowercase_env :: env where
  "lowercase_env =
     example_env\<lparr>fournisseur := Inr (Some [(''k1'', lowercase_record)]),
                 admin := Inr (Some [(''a1'', lowercase_record)])\<rparr>"


text \<open>A request that presents the revoked token.\<close>

definition revoked_request :: request where
  "revoked_request = \<lparr>authorization = Some ''Bearer withdrawn'', req_body = JUndefined\<rparr>"

definition good_request :: request where
  "good_request = \<lparr>authorization = Some ''Bearer good'', req_body = JObj [(''foo'', JStr ''bar'')]\<rparr>"

section \<open>Properties\<close>

subsection \<open>The scan finds the first matching entry\<close>

lemma supplier_loop_find:
  "supplier_loop mk em ui records =
     (case find (is_match em ui) records of
        None \<Rightarrow> (False, JNull)
      | Some (k, r) \<Rightarrow> (True, mk k r))"
  by (induction records) (auto simp: is_match_def)


lemma strict_eq_Some_iff: "strict_eq p (Some t) \<longleftrightarrow> p = Some (DStr t)"
  by (cases "(p, Some t)" rule: strict_eq.cases) auto

lemma strict_eq_None_iff: "strict_eq p None \<longleftrightarrow> p = None"
  by (cases "(p, None :: string option)" rule: strict_eq.cases) auto

lemma admin_by_email_no_record:
  assumes "admin e = Inr registry"
    and "\<forall>(k, r) \<in> set (children registry). db_get r ''email'' \<noteq> Some (DStr s)"
  shows "admin_by_email e (Some s) = Inr None"
proof (cases registry)
  case None
  with assms(1) show ?thesis by (simp add: admin_by_email_def)
next
  case (Some records)
  with assms(2) have "filter (\<lambda>(k, r). db_get r ''email'' = Some (DStr s)) records = []"
    by (auto simp: children_def filter_empty_conv)
  with assms(1) Some show ?thesis by (simp add: admin_by_email_def)
qed

lemma admin_by_email_found:
  assumes "admin_by_email e (Some s) = Inr (Some found)"
  shows "\<forall>(k, r) \<in> set found. db_get r ''email'' = Some (DStr s)"
  using assms
  by (auto simp: admin_by_email_def Let_def split: sum.splits option.splits if_splits)

subsection \<open>GET /api/check-supplier\<close>

text \<open>
  C1, as the code has it. When the supplier registry is read as a collection, the handlers
  scan it in enumeration order and report \<open>isSupplier = true\<close> exactly when some record's
  \<^verbatim>\<open>email\<close> is strictly equal to the identity's email or its \<^verbatim>\<open>id\<close> to the identity's uid.
  The secured server reports, for the first such record, the projection
  \<^verbatim>\<open>{id: <registry key>, name, departement}\<close> (and \<^verbatim>\<open>null\<close> when there is none); the handler
  of \<^verbatim>\<open>server.js\<close> reports \<open>isSupplier\<close> alone. The record's \<^verbatim>\<open>email\<close> is not part of
  either answer.
\<close>

theorem check_supplier_first_match:
  assumes "fournisseur e = Inr (Some records)"
  shows "check_supplier e u =
           (Respond 200
              (JObj [(''isSupplier'', JBool (find (is_match (email u) (uid u)) records \<noteq> None)),
                        (''supplier'',
                         (case find (is_match (email u) (uid u)) records of
                            None \<Rightarrow> JNull
                          | Some (k, r) \<Rightarrow>
                              JObj [(''id'', JStr k),
                                    (''name'', of_prop (db_get r ''name'')),
                                    (''departement'', of_prop (db_get r ''departement''))])),
                        (''user'', JObj [(''uid'', JStr (uid u)), (''email'', of_str (email u))]),
                        (''timestamp'', JStr (now e))]),
            [Once ''fournisseur''])
         \<and> server_check_supplier e t =
           (Respond 200
              (JObj [(''isSupplier'',
                      JBool (find (is_match (tok_email t) (tok_uid t)) records \<noteq> None))]),
            [Once ''fournisseur''])"
  using assms
  by (auto simp: check_supplier_def server_check_supplier_def scan_suppliers_def
        supplier_loop_find check_supplier_data_def json_def split: option.splits)

theorem check_supplier_first_match_witness:
  "fournisseur example_env = Inr (Some example_suppliers)
   \<and> check_supplier example_env example_user =
       (Respond 200
          (JObj [(''isSupplier'', JBool True),
                 (''supplier'', JObj [(''id'', JStr ''k1''),
                                      (''name'', JStr ''Acme''),
                                      (''departement'', JUndefined)]),
                 (''user'', JObj [(''uid'', JStr ''u1''), (''email'', JStr ''s@x.com'')]),
                 (''timestamp'', JStr ''2024-01-01T00:00:00.000Z'')]),
        [Once ''fournisseur''])
   \<and> server_check_supplier example_env example_token =
       (Respond 200 (JObj [(''isSupplier'', JBool True)]), [Once ''fournisseur''])"
proof -
  have stored: "fournisseur example_env = Inr (Some example_suppliers)"
    by (simp add: example_env_def)
  show ?thesis
    using stored check_supplier_first_match [OF stored, of example_user example_token]
    by (simp add: example_env_def example_user_def example_token_def example_suppliers_def
          is_match_def of_prop_def of_str_def)
qed

text \<open>
  C1 as the specification words it fails on its own example: for the identity
  \<^verbatim>\<open>{email:"s@x.com", unique_id:"u1"}\<close> and the store \<^verbatim>\<open>{"k1":{"email":"s@x.com","name":"Acme"}}\<close>
  the record reported is not \<^verbatim>\<open>{record_id:"k1", email:"s@x.com", name:"Acme"}\<close>. The secured
  server reports \<^verbatim>\<open>{id:"k1", name:"Acme", departement: undefined}\<close>, which carries no
  \<^verbatim>\<open>email\<close>, and \<^verbatim>\<open>server.js\<close> reports no record.
\<close>

theorem check_supplier_record_counterexample:
  "js_get (body (fst (check_supplier example_env example_user))) ''supplier''
     \<noteq> Some (JObj [(''record_id'', JStr ''k1''),
                     (''email'', JStr ''s@x.com''),
                     (''name'', JStr ''Acme'')])
   \<and> js_get (body (fst (check_supplier example_env example_user))) ''supplier''
     = Some (JObj [(''id'', JStr ''k1''),
                   (''name'', JStr ''Acme''),
                   (''departement'', JUndefined)])
   \<and> body (fst (server_check_supplier example_env example_token))
     = JObj [(''isSupplier'', JBool True)]"
  by (simp add: check_supplier_def server_check_supplier_def scan_suppliers_def
        check_supplier_data_def example_env_def example_user_def example_token_def
        example_suppliers_def of_prop_def of_str_def json_def)

text \<open>
  C7. When nothing is stored under the supplier registry (the read gives \<^verbatim>\<open>null\<close>) or the
  registry is an empty collection, both handlers answer 200 with \<open>isSupplier = false\<close>, the
  secured server with \<^verbatim>\<open>supplier: null\<close>; no error response is produced.
\<close>

theorem check_supplier_empty_or_absent:
  assumes "fournisseur e = Inr None \<or> fournisseur e = Inr (Some [])"
  shows "check_supplier e u =
           (Respond 200
              (JObj [(''isSupplier'', JBool False),
                     (''supplier'', JNull),
                     (''user'', JObj [(''uid'', JStr (uid u)), (''email'', of_str (email u))]),
                     (''timestamp'', JStr (now e))]),
            [Once ''fournisseur''])
         \<and> server_check_supplier e t =
           (Respond 200 (JObj [(''isSupplier'', JBool False)]), [Once ''fournisseur''])"
  using assms
  by (auto simp: check_supplier_def server_check_supplier_def scan_suppliers_def json_def)

theorem check_supplier_empty_or_absent_witness:
  "fournisseur example_admin_env = Inr None
   \<and> check_supplier example_admin_env example_user =
       (Respond 200
          (JObj [(''isSupplier'', JBool False),
                 (''supplier'', JNull),
                 (''user'', JObj [(''uid'', JStr ''u1''), (''email'', JStr ''s@x.com'')]),
                 (''timestamp'', JStr ''2024-01-01T00:00:00.000Z'')]),
        [Once ''fournisseur''])
   \<and> server_check_supplier example_admin_env example_token =
       (Respond 200 (JObj [(''isSupplier'', JBool False)]), [Once ''fournisseur''])"
proof -
  have absent: "fournisseur example_admin_env = Inr None"
    by (simp add: example_admin_env_def)
  then have "fournisseur example_admin_env = Inr None
             \<or> fournisseur example_admin_env = Inr (Some [])"
    by simp
  from check_supplier_empty_or_absent [OF this, of example_user example_token] absent
  show ?thesis
    by (simp add: example_admin_env_def example_env_def example_user_def example_token_def
          of_str_def)
qed

text \<open>
  C9. Take an identity without an email and a supplier registry in which no record's
  \<^verbatim>\<open>id\<close> is the identity's uid. If the registry has a record without an \<^verbatim>\<open>email\<close> property,
  the scan stops at the first such record (\<^verbatim>\<open>undefined === undefined\<close>): the handlers
  report \<open>isSupplier = true\<close>, the secured server with that record's projection.
\<close>

theorem supplier_scan_undefined_email:
  assumes "fournisseur e = Inr (Some records)"
    and "email u = None" and "tok_email t = None" and "tok_uid t = uid u"
    and "\<forall>(k', r') \<in> set records. db_get r' ''id'' \<noteq> Some (DStr (uid u))"
    and "find (\<lambda>(k', r'). db_get r' ''email'' = None) records = Some (k, r)"
  shows "check_supplier e u =
           (Respond 200
              (JObj [(''isSupplier'', JBool True),
                     (''supplier'', JObj [(''id'', JStr k),
                                          (''name'', of_prop (db_get r ''name'')),
                                          (''departement'', of_prop (db_get r ''departement''))]),
                     (''user'', JObj [(''uid'', JStr (uid u)), (''email'', JUndefined)]),
                     (''timestamp'', JStr (now e))]),
            [Once ''fournisseur''])
         \<and> server_check_supplier e t =
           (Respond 200 (JObj [(''isSupplier'', JBool True)]), [Once ''fournisseur''])"
proof -
  have "find (is_match None (uid u)) records
          = find (\<lambda>(k', r'). db_get r' ''email'' = None) records"
    using assms(5)
    by (intro find_cong refl) (auto simp: is_match_def strict_eq_Some_iff strict_eq_None_iff)
  then have found: "find (is_match None (uid u)) records = Some (k, r)"
    using assms(6) by simp
  show ?thesis
    using assms(1-4) found
    by (auto simp: check_supplier_def server_check_supplier_def scan_suppliers_def
          supplier_loop_find check_supplier_data_def of_str_def json_def)
qed

theorem supplier_scan_undefined_email_witness:
  "email anonymous_user = None
   \<and> find (\<lambda>(k', r'). db_get r' ''email'' = None) unlabelled_suppliers
       = Some (''k2'', DObj [(''name'', DStr ''Bolt'')])
   \<and> check_supplier (example_env\<lparr>fournisseur := Inr (Some unlabelled_suppliers)\<rparr>) anonymous_user =
       (Respond 200
          (JObj [(''isSupplier'', JBool True),
                 (''supplier'', JObj [(''id'', JStr ''k2''),
                                      (''name'', JStr ''Bolt''),
                                      (''departement'', JUndefined)]),
                 (''user'', JObj [(''uid'', JStr ''u2''), (''email'', JUndefined)]),
                 (''timestamp'', JStr ''2024-01-01T00:00:00.000Z'')]),
        [Once ''fournisseur''])
   \<and> server_check_supplier (example_env\<lparr>fournisseur := Inr (Some unlabelled_suppliers)\<rparr>)
       anonymous_token =
       (Respond 200 (JObj [(''isSupplier'', JBool True)]), [Once ''fournisseur''])"
proof -
  let ?e = "example_env\<lparr>fournisseur := Inr (Some unlabelled_suppliers)\<rparr>"
  have h1: "fournisseur ?e = Inr (Some unlabelled_suppliers)" by simp
  have h2: "email anonymous_user = None" by (simp add: anonymous_user_def)
  have h3: "tok_email anonymous_token = None" by (simp add: anonymous_token_def)
  have h4: "tok_uid anonymous_token = uid anonymous_user"
    by (simp add: anonymous_token_def anonymous_user_def)
  have h5: "\<forall>(k', r') \<in> set unlabelled_suppliers.
              db_get r' ''id'' \<noteq> Some (DStr (uid anonymous_user))"
    by (simp add: unlabelled_suppliers_def anonymous_user_def)
  have h6: "find (\<lambda>(k', r'). db_get r' ''email'' = None) unlabelled_suppliers
              = Some (''k2'', DObj [(''name'', DStr ''Bolt'')])"
    by (simp add: unlabelled_suppliers_def)
  from supplier_scan_undefined_email [OF h1 h2 h3 h4 h5 h6] h2 h6
  show ?thesis
    by (simp add: anonymous_user_def anonymous_token_def example_env_def example_user_def
          of_prop_def)
qed

subsection \<open>GET /api/check-roles\<close>





text \<open>
  C6. When a store access of GET /api/check-roles is rejected (the supplier read, or the
  admin query after a successful supplier read), the answer is the 500 error document
  and nothing else: it has no \<^verbatim>\<open>roles\<close>, \<^verbatim>\<open>isSupplier\<close> or \<^verbatim>\<open>isAdmin\<close> member.
\<close>

theorem check_roles_store_failure:
  assumes "fournisseur e = Inl err
           \<or> (\<exists>suppliers. fournisseur e = Inr suppliers \<and> admin_by_email e (email u) = Inl err)"
    and "fournisseur e = Inl err'
           \<or> (\<exists>suppliers. fournisseur e = Inr suppliers
                 \<and> admin_by_email e (tok_email t) = Inl err')"
  shows "fst (check_roles e u) =
           Respond 500 (JObj [(''error'', JStr ''Erreur interne du serveur''),
                              (''message'', JStr (message err))])
         \<and> fst (server_check_roles e t) =
           Respond 500 (JObj [(''error'', JStr ''Erreur interne du serveur'')])
         \<and> js_get (body (fst (check_roles e u))) ''roles'' = Some JUndefined
         \<and> js_get (body (fst (server_check_roles e t))) ''isSupplier'' = Some JUndefined
         \<and> js_get (body (fst (server_check_roles e t))) ''isAdmin'' = Some JUndefined"
  using assms
  by (auto simp: check_roles_def server_check_roles_def internal_error_def
        server_internal_error_def split: sum.splits prod.splits)

theorem check_roles_store_failure_witness:
  "fournisseur (example_env\<lparr>fournisseur := Inl store_down\<rparr>) = Inl store_down
   \<and> fst (check_roles (example_env\<lparr>fournisseur := Inl store_down\<rparr>) example_user) =
       Respond 500 (JObj [(''error'', JStr ''Erreur interne du serveur''),
                          (''message'', JStr ''permission_denied'')])
   \<and> fst (server_check_roles (example_env\<lparr>fournisseur := Inl store_down\<rparr>) example_token) =
       Respond 500 (JObj [(''error'', JStr ''Erreur interne du serveur'')])
   \<and> fournisseur (example_env\<lparr>admin := Inl store_down\<rparr>) = Inr (Some example_suppliers)
   \<and> admin_by_email (example_env\<lparr>admin := Inl store_down\<rparr>) (email example_user) = Inl store_down
   \<and> fst (check_roles (example_env\<lparr>admin := Inl store_down\<rparr>) example_user) =
       Respond 500 (JObj [(''error'', JStr ''Erreur interne du serveur''),
                          (''message'', JStr ''permission_denied'')])
   \<and> fst (server_check_roles (example_env\<lparr>admin := Inl store_down\<rparr>) example_token) =
       Respond 500 (JObj [(''error'', JStr ''Erreur interne du serveur'')])"
proof -
  let ?e1 = "example_env\<lparr>fournisseur := Inl store_down\<rparr>"
  let ?e2 = "example_env\<lparr>admin := Inl store_down\<rparr>"
  have a1: "fournisseur ?e1 = Inl store_down" by simp
  have a2: "fournisseur ?e2 = Inr (Some example_suppliers)" by (simp add: example_env_def)
  have a3: "admin_by_email ?e2 (email example_user) = Inl store_down"
    by (simp add: admin_by_email_def example_user_def)
  have a4: "admin_by_email ?e2 (tok_email example_token) = Inl store_down"
    by (simp add: admin_by_email_def example_token_def)
  have h1: "fournisseur ?e1 = Inl store_down
            \<or> (\<exists>suppliers. fournisseur ?e1 = Inr suppliers
                  \<and> admin_by_email ?e1 (email example_user) = Inl store_down)"
    using a1 by simp
  have h1': "fournisseur ?e1 = Inl store_down
            \<or> (\<exists>suppliers. fournisseur ?e1 = Inr suppliers
                  \<and> admin_by_email ?e1 (tok_email example_token) = Inl store_down)"
    using a1 by simp
  have h2: "fournisseur ?e2 = Inl store_down
            \<or> (\<exists>suppliers. fournisseur ?e2 = Inr suppliers
                  \<and> admin_by_email ?e2 (email example_user) = Inl store_down)"
    using a2 a3 by simp
  have h2': "fournisseur ?e2 = Inl store_down
            \<or> (\<exists>suppliers. fournisseur ?e2 = Inr suppliers
                  \<and> admin_by_email ?e2 (tok_email example_token) = Inl store_down)"
    using a2 a4 by simp
  have msg: "message store_down = ''permission_denied''" by (simp add: store_down_def)
  from check_roles_store_failure [OF h1 h1'] check_roles_store_failure [OF h2 h2'] a1 a2 a3 msg
  show ?thesis by simp
qed

subsection \<open>The admin guard\<close>




subsection \<open>Matching is exact\<close>

text \<open>
  C8. The email comparison is strict equality of strings: a stored \<^verbatim>\<open>email\<close> matches a
  given one only when it is that very string. For a record stored with email
  \<^verbatim>\<open>a@x.com\<close> and an identity with email \<^verbatim>\<open>A@x.com\<close>: the supplier loop passes over the
  record unless its \<^verbatim>\<open>id\<close> is the identity's uid, the admin query never returns it, and
  GET /api/check-roles on registries holding only such records reports both roles false.
\<close>

theorem email_match_is_exact:
  assumes "db_get r ''email'' = Some (DStr ''a@x.com'')"
  shows "(strict_eq stored (Some given) \<longleftrightarrow> stored = Some (DStr given))
         \<and> \<not> strict_eq (db_get r ''email'') (Some ''A@x.com'')
         \<and> is_match (Some ''A@x.com'') ui (k, r) = (db_get r ''id'' = Some (DStr ui))
         \<and> supplier_loop mk (Some ''A@x.com'') ui ((k, r) # rest) =
             (if strict_eq (db_get r ''id'') (Some ui) then (True, mk k r)
              else supplier_loop mk (Some ''A@x.com'') ui rest)
         \<and> (admin_by_email e (Some ''A@x.com'') = Inr (Some found) \<longrightarrow> (k, r) \<notin> set found)
         \<and> (email u = Some ''A@x.com'' \<and> db_get r ''id'' \<noteq> Some (DStr (uid u))
              \<and> fournisseur e = Inr (Some [(k, r)]) \<and> admin e = Inr (Some [(k', r)]) \<longrightarrow>
            js_get (body (fst (check_roles e u))) ''roles'' =
              Some (JObj [(''isSupplier'', JBool False),
                          (''isAdmin'', JBool False),
                          (''isAuthenticated'', JBool True)]))"
proof (intro conjI)
  show "strict_eq stored (Some given) \<longleftrightarrow> stored = Some (DStr given)"
    by (rule strict_eq_Some_iff)
  show "\<not> strict_eq (db_get r ''email'') (Some ''A@x.com'')"
    using assms by simp
  show "is_match (Some ''A@x.com'') ui (k, r) = (db_get r ''id'' = Some (DStr ui))"
    using assms by (simp add: is_match_def strict_eq_Some_iff)
  show "supplier_loop mk (Some ''A@x.com'') ui ((k, r) # rest) =
          (if strict_eq (db_get r ''id'') (Some ui) then (True, mk k r)
           else supplier_loop mk (Some ''A@x.com'') ui rest)"
    using assms by simp
  show "admin_by_email e (Some ''A@x.com'') = Inr (Some found) \<longrightarrow> (k, r) \<notin> set found"
  proof (intro impI notI)
    assume answer: "admin_by_email e (Some ''A@x.com'') = Inr (Some found)"
      and member: "(k, r) \<in> set found"
    from admin_by_email_found [OF answer] member
    have "db_get r ''email'' = Some (DStr ''A@x.com'')" by fastforce
    with assms show False by simp
  qed
  show "email u = Some ''A@x.com'' \<and> db_get r ''id'' \<noteq> Some (DStr (uid u))
          \<and> fournisseur e = Inr (Some [(k, r)]) \<and> admin e = Inr (Some [(k', r)]) \<longrightarrow>
        js_get (body (fst (check_roles e u))) ''roles'' =
          Some (JObj [(''isSupplier'', JBool False),
                      (''isAdmin'', JBool False),
                      (''isAuthenticated'', JBool True)])"
    using assms
    by (auto simp: check_roles_def scan_suppliers_def admin_by_email_def json_def
          strict_eq_Some_iff)
qed

theorem email_match_is_exact_witness:
  "db_get lowercase_record ''email'' = Some (DStr ''a@x.com'')
   \<and> email capital_user = Some ''A@x.com''
   \<and> \<not> strict_eq (db_get lowercase_record ''email'') (email capital_user)
   \<and> \<not> is_match (email capital_user) (uid capital_user) (''k1'', lowercase_record)
   \<and> js_get (body (fst (check_roles lowercase_env capital_user))) ''roles'' =
       Some (JObj [(''isSupplier'', JBool False),
                   (''isAdmin'', JBool False),
                   (''isAuthenticated'', JBool True)])"
proof -
  have stored: "db_get lowercase_record ''email'' = Some (DStr ''a@x.com'')"
    by (simp add: lowercase_record_def)
  have given: "email capital_user = Some ''A@x.com''"
    by (simp add: capital_user_def)
  have no_id: "db_get lowercase_record ''id'' \<noteq> Some (DStr (uid capital_user))"
    by (simp add: lowercase_record_def)
  have regs: "fournisseur lowercase_env = Inr (Some [(''k1'', lowercase_record)])"
    "admin lowercase_env = Inr (Some [(''a1'', lowercase_record)])"
    by (simp_all add: lowercase_env_def)
  from email_match_is_exact [OF stored,
      of "Some (DStr ''a@x.com'')" "''a@x.com''" "uid capital_user" "''k1''"
         "\<lambda>supplierId supplier. JNull" "[]" lowercase_env "[]" capital_user "''a1''"]
    stored given no_id regs
  show ?thesis by simp
qed

subsection \<open>Authentication failures\<close>

text \<open>
  Where the 401 does hold: a request without a bearer token, and a token that
  \<^verbatim>\<open>verifyIdToken(token)\<close> rejects with any code but \<^verbatim>\<open>auth/user-not-found\<close>. The outcome
  of either middleware does not depend on what the provider would answer if it were asked
  to check revocation.
\<close>

lemma rejected_token_401:
  assumes "no_bearer h
           \<or> (\<exists>err. verifyIdToken e (bearer_token h) False = Inl err
                    \<and> code err \<noteq> Some ''auth/user-not-found'')"
  shows "status (fst (guarded (authenticateFirebaseUser e h) handler)) = 401
         \<and> status (fst (guarded (authenticateUser e h) handler')) = 401"
  using assms
  by (auto simp: guarded_def authenticateFirebaseUser_def authenticateUser_def auth_failure_def)

lemma revocation_never_checked:
  "authenticateFirebaseUser (e\<lparr>verifyIdToken := \<lambda>t checkRevoked. verifyIdToken e t False\<rparr>) h
     = authenticateFirebaseUser e h"
  "authenticateUser (e\<lparr>verifyIdToken := \<lambda>t checkRevoked. verifyIdToken e t False\<rparr>) h
     = authenticateUser e h"
  by (simp_all add: authenticateFirebaseUser_def authenticateUser_def Let_def split: sum.splits)

text \<open>
  C3 fails for a revoked token. The middlewares never ask the provider to check
  revocation, so a token that has been revoked but has not expired is verified like a
  valid one: the identity is attached, the handler runs, and the protected routes of both
  servers answer 200 instead of 401. The \<^verbatim>\<open>auth/id-token-revoked\<close> branch of the
  \<^verbatim>\<open>catch\<close> is never reached.
\<close>

theorem revoked_token_accepted:
  "bearer_token (authorization revoked_request) = Some ''withdrawn''
   \<and> verifyIdToken example_env (Some ''withdrawn'') True
       = Inl \<lparr>code = Some ''auth/id-token-revoked'',
              message = ''The Firebase ID token has been revoked''\<rparr>
   \<and> authenticateFirebaseUser example_env (authorization revoked_request)
       = (Next example_user, [VerifyIdToken (Some ''withdrawn''), GetUser ''u1''])
   \<and> authenticateUser example_env (authorization revoked_request)
       = (Next example_token, [VerifyIdToken (Some ''withdrawn'')])
   \<and> status (fst (route_check_roles example_env revoked_request)) = 200
   \<and> status (fst (route_check_supplier example_env revoked_request)) = 200
   \<and> status (fst (server_route_check_roles example_env revoked_request)) = 200
   \<and> status (fst (server_route_check_supplier example_env revoked_request)) = 200"
  by (simp add: revoked_request_def bearer_token_def js_split_def no_bearer_def startsWith_def
        authenticateFirebaseUser_def authenticateUser_def guarded_def
        route_check_roles_def route_check_supplier_def
        server_route_check_roles_def server_route_check_supplier_def
        check_roles_def check_supplier_def server_check_roles_def server_check_supplier_def
        scan_suppliers_def admin_by_email_def json_def
        example_env_def example_user_def example_token_def example_suppliers_def)

subsection \<open>PUT /api/user/update\<close>





subsection \<open>GET /api/admin/users\<close>

lemma authenticate_not_200:
  "fst (authenticateFirebaseUser e h) = Done r \<Longrightarrow> status r \<in> {401, 404}"
  by (auto simp: authenticateFirebaseUser_def auth_failure_def Let_def
        split: if_splits sum.splits)

lemma requireAdmin_not_200:
  "fst (requireAdmin e ru) = Done r \<Longrightarrow> status r \<in> {401, 403, 500}"
  by (auto simp: requireAdmin_def split: option.splits sum.splits)

lemma admin_users_page:
  assumes "\<forall>listed. listUsers e 100 = Inr listed \<longrightarrow> length listed \<le> 100"
    and "status (fst (admin_users e u)) = 200"
  shows "\<exists>users. js_get (body (fst (admin_users e u))) ''users'' = Some (JArr users)
            \<and> js_get (body (fst (admin_users e u))) ''count'' = Some (JNum (int (length users)))
            \<and> length users \<le> 100"
  using assms
  by (auto simp: admin_users_def internal_error_def json_def split: sum.splits)

text \<open>
  C10. Provided the identity provider's \<^verbatim>\<open>listUsers(100)\<close> returns a page of at most 100
  users, every 200 answer of GET /api/admin/users carries a \<^verbatim>\<open>users\<close> array of at most
  100 entries and a \<^verbatim>\<open>count\<close> equal to its length.
\<close>

theorem admin_users_at_most_100:
  assumes "\<forall>listed. listUsers e 100 = Inr listed \<longrightarrow> length listed \<le> 100"
    and "status (fst (route_admin_users e req)) = 200"
  shows "\<exists>users. js_get (body (fst (route_admin_users e req))) ''users'' = Some (JArr users)
            \<and> js_get (body (fst (route_admin_users e req))) ''count''
                = Some (JNum (int (length users)))
            \<and> length users \<le> 100"
proof (cases "authenticateFirebaseUser e (authorization req)")
  case (Pair st calls)
  show ?thesis
  proof (cases st)
    case (Done r)
    with Pair assms(2) authenticate_not_200 [of e "authorization req" r] show ?thesis
      by (auto simp: route_admin_users_def guarded_def)
  next
    case (Next v)
    show ?thesis
    proof (cases "requireAdmin e (Some v)")
      case inner: (Pair st' calls')
      show ?thesis
      proof (cases st')
        case (Done r)
        with Pair Next inner assms(2) requireAdmin_not_200 [of e "Some v" r] show ?thesis
          by (auto simp: route_admin_users_def guarded_def)
      next
        case next': (Next w)
        have eq: "fst (route_admin_users e req) = fst (admin_users e w)"
          using Pair Next inner next'
          by (simp add: route_admin_users_def guarded_def split: prod.splits)
        with assms admin_users_page [of e w] show ?thesis by simp
      qed
    qed
  qed
qed

lemma example_route:
  "fst (route_admin_users example_admin_env good_request) =
     Respond 200
       (JObj [(''success'', JBool True),
              (''count'', JNum 1),
              (''users'', JArr [user_summary example_user]),
              (''timestamp'', JStr ''2024-01-01T00:00:00.000Z'')])"
  by (simp add: route_admin_users_def guarded_def authenticateFirebaseUser_def no_bearer_def
        startsWith_def bearer_token_def js_split_def good_request_def example_admin_env_def
        example_env_def example_token_def requireAdmin_def admin_by_email_def admin_users_def
        json_def example_user_def)

theorem admin_users_at_most_100_witness:
  "listUsers example_admin_env 100 = Inr [example_user]
   \<and> status (fst (route_admin_users example_admin_env good_request)) = 200
   \<and> js_get (body (fst (route_admin_users example_admin_env good_request))) ''count''
       = Some (JNum 1)
   \<and> (\<exists>users. js_get (body (fst (route_admin_users example_admin_env good_request))) ''users''
                 = Some (JArr users)
              \<and> js_get (body (fst (route_admin_users example_admin_env good_request))) ''count''
                 = Some (JNum (int (length users)))
              \<and> length users \<le> 100)"
proof -
  have page: "\<forall>listed. listUsers example_admin_env 100 = Inr listed \<longrightarrow> length listed \<le> 100"
    by (auto simp: example_admin_env_def example_env_def)
  have ok: "status (fst (route_admin_users example_admin_env good_request)) = 200"
    by (simp add: example_route)
  have count: "js_get (body (fst (route_admin_users example_admin_env good_request))) ''count''
       = Some (JNum 1)"
    by (simp add: example_route)
  have listed: "listUsers example_admin_env 100 = Inr [example_user]"
    by (simp add: example_admin_env_def example_env_def)
  from admin_users_at_most_100 [OF page ok] listed ok count
  show ?thesis by blast
qed


end
